theory Spec2Isabelle
  imports Complex_Main "HOL-Library.Sublist" "HOL-Library.Multiset" "HOL-Library.Char_ord"
    "HOL-Library.List_Lexorder"
begin

section \<open>Data model: the interfaces of src/index.ts\<close>

text \<open>
  A JavaScript string is modelled as \<^typ>\<open>string\<close>, one \<^typ>\<open>char\<close> standing for one
  code unit, so that \<^const>\<open>length\<close> is the \<^verbatim>\<open>.length\<close> of the source. A JSON number is a
  rational; no handler reads one. A field typed \<^verbatim>\<open>T | null\<close> is an option.
\<close>

type_synonym js_number = rat

record Network =
  network :: string
  coin :: string
  name :: string
  depositDust :: string
  depositEnable :: bool
  withdrawEnable :: bool
  depositHideEnable :: bool
  withdrawHideEnable :: bool
  depositDesc :: string
  depositMsgCategoryDesc :: "string option"
  withdrawDesc :: string
  withdrawMsgCategoryDesc :: "string option"
  specialTips :: string
  specialWithdrawTips :: string
  depositFee :: string
  withdrawFee :: string
  withdrawMin :: string
  estimatedRecoveryTime :: "js_number option"
  estimatedArrivalTime :: js_number
  country :: string
  label :: string
  busy :: bool
  contractAddress :: string

record Coin =
  coin :: string
  name :: string
  depositAllEnable :: bool
  withdrawAllEnable :: bool
  depositHideAll :: bool
  withdrawHideAll :: bool
  logoUrl :: string
  totalAmount :: "js_number option"
  hotFlag :: js_number
  btcValuation :: "js_number option"
  networkList :: "Network list"

record ApiResponse =
  code :: string
  message :: "string option"
  messageDetail :: "string option"
  data :: "Coin list"
  success :: bool

record SimplifiedNetwork =
  name :: string
  withdrawEnable :: bool
  depositEnable :: bool

text \<open>
  An object used as a dictionary (\<^verbatim>\<open>{ [key: string]: T }\<close>, created by the literal \<^verbatim>\<open>{}\<close>)
  is the list of its own enumerable properties in the order of their creation.
\<close>

type_synonym 'v js_object = "(string \<times> 'v) list"

type_synonym NetworkInfo = "string js_object"

record SimplifiedCoin =
  coin :: string
  name :: string
  networks :: "SimplifiedNetwork js_object"

text \<open>The values a parsed JSON request body can hold.\<close>

datatype json =
    JNull
  | JBool bool
  | JNumber js_number
  | JString string
  | JArray "json list"
  | JObject "(string \<times> json) list"

section \<open>Ordinary objects\<close>

text \<open>
  \<^verbatim>\<open>CreateDataProperty\<close>: an own property that exists keeps its place and takes the new
  value; a new one is created after the others.
\<close>

fun create_data_property :: "'v js_object \<Rightarrow> string \<Rightarrow> 'v \<Rightarrow> 'v js_object" where
  "create_data_property [] k v = [(k, v)]"
| "create_data_property ((k', v') # ps) k v =
     (if k' = k then (k, v) # ps else (k', v') # create_data_property ps k v)"

text \<open>
  The assignment \<^verbatim>\<open>obj[k] = v\<close> on an object whose prototype chain ends in
  \<^verbatim>\<open>Object.prototype\<close>. An own property is updated. Otherwise the key \<^verbatim>\<open>__proto__\<close> finds
  the accessor of \<^verbatim>\<open>Object.prototype\<close>: its setter replaces the prototype when \<open>v\<close> is an
  object and does nothing otherwise, and in both cases no own property is created. Every
  other property of \<^verbatim>\<open>Object.prototype\<close> is a writable data property, so the assignment
  creates an own property.
\<close>

definition obj_assign :: "'v js_object \<Rightarrow> string \<Rightarrow> 'v \<Rightarrow> 'v js_object" where
  "obj_assign obj k v =
     (if k = ''__proto__'' \<and> map_of obj k = None then obj else create_data_property obj k v)"

text \<open>
  An array index is the canonical decimal numeral of an integer from 0 to \<open>2^32 - 2\<close>.
\<close>

definition decimal_value :: "string \<Rightarrow> nat" where
  "decimal_value s = foldl (\<lambda>n c. 10 * n + (of_char c - 48)) 0 s"

definition is_array_index :: "string \<Rightarrow> bool" where
  "is_array_index s \<longleftrightarrow>
     s \<noteq> [] \<and> list_all (\<lambda>c. c \<in> set ''0123456789'') s \<and>
     (s = ''0'' \<or> hd s \<noteq> CHR ''0'') \<and> decimal_value s < 4294967295"

text \<open>
  \<^verbatim>\<open>Object.entries\<close>, \<^verbatim>\<open>Object.keys\<close>, the spread \<^verbatim>\<open>{...obj}\<close> and \<^verbatim>\<open>JSON.stringify\<close> (so
  \<^verbatim>\<open>res.json\<close>) all enumerate the own properties in the order of \<^verbatim>\<open>OrdinaryOwnPropertyKeys\<close>:
  the array indices in ascending numeric order, then the other keys in creation order.
\<close>

definition object_entries :: "'v js_object \<Rightarrow> (string \<times> 'v) list" where
  "object_entries obj =
     sort_key (\<lambda>(k, v). decimal_value k) (filter (\<lambda>(k, v). is_array_index k) obj) @
     filter (\<lambda>(k, v). \<not> is_array_index k) obj"

definition object_keys :: "'v js_object \<Rightarrow> string list" where
  "object_keys obj = map fst (object_entries obj)"

section \<open>POST /api/filter-coins: filter and transform\<close>

text \<open>\<^verbatim>\<open>new Set(networks)\<close>; \<^verbatim>\<open>has\<close> of a string finds the equal string elements only.\<close>

definition whitelistedNetworks :: "json list \<Rightarrow> json set" where
  "whitelistedNetworks wl = set wl"

definition set_has :: "json set \<Rightarrow> string \<Rightarrow> bool" where
  "set_has s x \<longleftrightarrow> JString x \<in> s"

text \<open>The predicate of \<^verbatim>\<open>.filter\<close> (index.ts, line 107).\<close>

definition has_non_whitelisted :: "json list \<Rightarrow> Coin \<Rightarrow> bool" where
  "has_non_whitelisted wl c =
     list_ex (\<lambda>nw. \<not> set_has (whitelistedNetworks wl) (Network.network nw)) (networkList c)"

definition retainedCoins :: "Coin list \<Rightarrow> json list \<Rightarrow> Coin list" where
  "retainedCoins ds wl = filter (has_non_whitelisted wl) ds"

text \<open>
  The callback of \<^verbatim>\<open>.map\<close> (lines 108 to 124): \<^verbatim>\<open>networkMap\<close> starts as \<^verbatim>\<open>{}\<close> and is
  assigned, for each network in turn, the object literal of lines 112 to 116.
\<close>

definition simplifiedNetwork :: "Network \<Rightarrow> SimplifiedNetwork" where
  "simplifiedNetwork nw =
     \<lparr>SimplifiedNetwork.name = Network.name nw,
      withdrawEnable = Network.withdrawEnable nw,
      depositEnable = Network.depositEnable nw\<rparr>"

definition networkMap :: "Coin \<Rightarrow> SimplifiedNetwork js_object" where
  "networkMap c =
     foldl (\<lambda>m nw. obj_assign m (Network.network nw) (simplifiedNetwork nw)) [] (networkList c)"

definition simplifyCoin :: "Coin \<Rightarrow> SimplifiedCoin" where
  "simplifyCoin c =
     \<lparr>SimplifiedCoin.coin = Coin.coin c, name = Coin.name c, networks = networkMap c\<rparr>"

definition filteredCoins :: "Coin list \<Rightarrow> json list \<Rightarrow> SimplifiedCoin list" where
  "filteredCoins ds wl = map simplifyCoin (retainedCoins ds wl)"

section \<open>The upstream fetcher and the environment of a request\<close>

datatype js_error = TypeError string | RequestError string

text \<open>
  What a handler can observe and change outside its own variables: what \<^verbatim>\<open>axios.get\<close> does
  when it is called (it rejects with an error, or resolves to a response whose \<^verbatim>\<open>data\<close> is the
  body), the collation behind \<^verbatim>\<open>String.prototype.localeCompare\<close>, the number of upstream
  calls made so far, and the lines written by \<^verbatim>\<open>console.error\<close>.
\<close>

record world =
  upstream :: "js_error + ApiResponse"
  localeCompare :: "string \<Rightarrow> string \<Rightarrow> int"
  fetch_calls :: nat
  console :: "(string \<times> js_error) list"

definition fetchBinanceData :: "world \<Rightarrow> (js_error + ApiResponse) \<times> world" where
  "fetchBinanceData w =
     (let w1 = w\<lparr>fetch_calls := Suc (fetch_calls w)\<rparr> in
      case upstream w of
        Inr response_data \<Rightarrow> (Inr response_data, w1)
      | Inl e \<Rightarrow> (Inl e, w1\<lparr>console := console w1 @ [(''Error fetching data from Binance:'', e)]\<rparr>))"

section \<open>Requests and responses\<close>

text \<open>
  \<^verbatim>\<open>req.body\<close> is \<open>None\<close> when it is \<^verbatim>\<open>undefined\<close>. A response is the status and the fields
  of the JSON body; a field that the body does not have is \<open>None\<close>.
\<close>

record 'd response =
  status :: nat
  success :: bool
  message :: "string option"
  total :: "nat option"
  totalCoins :: "nat option"
  data :: "'d option"

text \<open>
  \<^verbatim>\<open>const { networks } = req.body\<close>: destructuring \<^verbatim>\<open>undefined\<close> or \<^verbatim>\<open>null\<close> throws; an object
  gives its property or \<^verbatim>\<open>undefined\<close>; an array or a primitive has no such property.
\<close>

fun destructure_networks :: "json option \<Rightarrow> js_error + json option" where
  "destructure_networks None = Inl (TypeError ''Cannot destructure property of undefined'')"
| "destructure_networks (Some JNull) = Inl (TypeError ''Cannot destructure property of null'')"
| "destructure_networks (Some (JObject props)) = Inr (map_of props ''networks'')"
| "destructure_networks (Some _) = Inr None"

fun isArray :: "json option \<Rightarrow> bool" where
  "isArray (Some (JArray xs)) = True"
| "isArray _ = False"

fun elements :: "json option \<Rightarrow> json list" where
  "elements (Some (JArray xs)) = xs"
| "elements _ = []"

section \<open>POST /api/filter-coins: the handler of src/index.ts\<close>

definition post_filter_coins_try ::
  "json option \<Rightarrow> world \<Rightarrow> (js_error + SimplifiedCoin list response) \<times> world" where
  "post_filter_coins_try body w =
     (case destructure_networks body of
        Inl e \<Rightarrow> (Inl e, w)
      | Inr nws \<Rightarrow>
          if \<not> isArray nws then
            (Inr \<lparr>status = 400, success = False, message = Some ''Networks must be an array'',
                  total = None, totalCoins = None, data = None\<rparr>, w)
          else
            (case fetchBinanceData w of
               (Inl e, w') \<Rightarrow> (Inl e, w')
             | (Inr binanceResponse, w') \<Rightarrow>
                 (let ds = ApiResponse.data binanceResponse;
                      fc = filteredCoins ds (elements nws)
                  in (Inr \<lparr>status = 200, success = True, message = None,
                            total = Some (length fc), totalCoins = Some (length ds),
                            data = Some fc\<rparr>, w'))))"

definition post_filter_coins ::
  "json option \<Rightarrow> world \<Rightarrow> SimplifiedCoin list response \<times> world" where
  "post_filter_coins body w =
     (case post_filter_coins_try body w of
        (Inr r, w') \<Rightarrow> (r, w')
      | (Inl e, w') \<Rightarrow>
          (\<lparr>status = 500, success = False, message = Some ''Internal server error'',
            total = None, totalCoins = None, data = None\<rparr>,
           w'\<lparr>console := console w' @ [(''Error processing request:'', e)]\<rparr>))"

section \<open>POST /api/filter-coins: the handler of the second source file\<close>

text \<open>
  The second file (src/unnamed/part_000) has the same interfaces and the same
  \<^verbatim>\<open>fetchBinanceData\<close>, and one handler, whose text is transcribed here on its own.
\<close>

definition filteredCoins_part000 :: "Coin list \<Rightarrow> json list \<Rightarrow> SimplifiedCoin list" where
  "filteredCoins_part000 ds wl =
     map (\<lambda>c.
        \<lparr>SimplifiedCoin.coin = Coin.coin c, name = Coin.name c,
         networks =
           foldl (\<lambda>m nw.
              obj_assign m (Network.network nw)
                \<lparr>SimplifiedNetwork.name = Network.name nw,
                 withdrawEnable = Network.withdrawEnable nw,
                 depositEnable = Network.depositEnable nw\<rparr>)
             [] (networkList c)\<rparr>)
       (filter (\<lambda>c. list_ex (\<lambda>nw. \<not> set_has (set wl) (Network.network nw)) (networkList c)) ds)"

definition post_filter_coins_try_part000 ::
  "json option \<Rightarrow> world \<Rightarrow> (js_error + SimplifiedCoin list response) \<times> world" where
  "post_filter_coins_try_part000 body w =
     (case destructure_networks body of
        Inl e \<Rightarrow> (Inl e, w)
      | Inr nws \<Rightarrow>
          if \<not> isArray nws then
            (Inr \<lparr>status = 400, success = False, message = Some ''Networks must be an array'',
                  total = None, totalCoins = None, data = None\<rparr>, w)
          else
            (case fetchBinanceData w of
               (Inl e, w') \<Rightarrow> (Inl e, w')
             | (Inr binanceResponse, w') \<Rightarrow>
                 (let ds = ApiResponse.data binanceResponse;
                      fc = filteredCoins_part000 ds (elements nws)
                  in (Inr \<lparr>status = 200, success = True, message = None,
                            total = Some (length fc), totalCoins = None,
                            data = Some fc\<rparr>, w'))))"

definition post_filter_coins_part000 ::
  "json option \<Rightarrow> world \<Rightarrow> SimplifiedCoin list response \<times> world" where
  "post_filter_coins_part000 body w =
     (case post_filter_coins_try_part000 body w of
        (Inr r, w') \<Rightarrow> (r, w')
      | (Inl e, w') \<Rightarrow>
          (\<lparr>status = 500, success = False, message = Some ''Internal server error'',
            total = None, totalCoins = None, data = None\<rparr>,
           w'\<lparr>console := console w' @ [(''Error processing request:'', e)]\<rparr>))"

section \<open>GET /api/networks\<close>

text \<open>
  Reading \<^verbatim>\<open>networksMap[k]\<close> finds an own property, or else a property of
  \<^verbatim>\<open>Object.prototype\<close>: one of its functions (of which only the \<^verbatim>\<open>length\<close> is read), or, for
  \<^verbatim>\<open>__proto__\<close>, the getter's result, which is \<^verbatim>\<open>Object.prototype\<close> itself.
\<close>

datatype js_value = Undefined | StringValue string | FunctionObject nat | ObjectPrototype

definition object_prototype_get :: "string \<Rightarrow> js_value" where
  "object_prototype_get k =
     (if k = ''__proto__'' then ObjectPrototype
      else if k \<in> set [''toString'', ''toLocaleString'', ''valueOf''] then FunctionObject 0
      else if k \<in> set [''constructor'', ''hasOwnProperty'', ''isPrototypeOf'',
                      ''propertyIsEnumerable'', ''__lookupGetter__'', ''__lookupSetter__'']
        then FunctionObject 1
      else if k \<in> set [''__defineGetter__'', ''__defineSetter__''] then FunctionObject 2
      else Undefined)"

definition obj_get :: "NetworkInfo \<Rightarrow> string \<Rightarrow> js_value" where
  "obj_get obj k = (case map_of obj k of Some s \<Rightarrow> StringValue s | None \<Rightarrow> object_prototype_get k)"

text \<open>\<^verbatim>\<open>!v\<close> is true for \<^verbatim>\<open>undefined\<close> and for the empty string.\<close>

fun falsy :: "js_value \<Rightarrow> bool" where
  "falsy Undefined = True"
| "falsy (StringValue s) = (s = [])"
| "falsy (FunctionObject n) = False"
| "falsy ObjectPrototype = False"

text \<open>
  \<^verbatim>\<open>v.length < n\<close>: \<^verbatim>\<open>Object.prototype\<close> has no \<^verbatim>\<open>length\<close>, and \<^verbatim>\<open>undefined < n\<close> is false. The
  source reads \<^verbatim>\<open>v.length\<close> only when \<^verbatim>\<open>!v\<close> is false, so \<^verbatim>\<open>v\<close> is not \<^verbatim>\<open>undefined\<close> there.
\<close>

fun length_less :: "js_value \<Rightarrow> nat \<Rightarrow> bool" where
  "length_less (StringValue s) n = (length s < n)"
| "length_less (FunctionObject l) n = (l < n)"
| "length_less ObjectPrototype n = False"
| "length_less Undefined n = False"

text \<open>The body of the inner \<^verbatim>\<open>forEach\<close> (lines 151 to 156).\<close>

definition recordNetwork :: "NetworkInfo \<Rightarrow> Network \<Rightarrow> NetworkInfo" where
  "recordNetwork m nw =
     (if falsy (obj_get m (Network.network nw)) \<or>
         length_less (obj_get m (Network.network nw)) (length (Network.name nw))
      then obj_assign m (Network.network nw) (Network.name nw)
      else m)"

definition networksMap :: "Coin list \<Rightarrow> NetworkInfo" where
  "networksMap ds = foldl (\<lambda>m c. foldl recordNetwork m (networkList c)) [] ds"

text \<open>
  \<^verbatim>\<open>Array.prototype.sort\<close> with a comparator is a stable sort: an element goes before
  another when the comparator is negative, and elements that compare equal keep their order.
\<close>

fun insert_sorted :: "('a \<Rightarrow> 'a \<Rightarrow> int) \<Rightarrow> 'a \<Rightarrow> 'a list \<Rightarrow> 'a list" where
  "insert_sorted cmp x [] = [x]"
| "insert_sorted cmp x (y # ys) =
     (if cmp x y \<le> 0 then x # y # ys else y # insert_sorted cmp x ys)"

definition array_sort :: "('a \<Rightarrow> 'a \<Rightarrow> int) \<Rightarrow> 'a list \<Rightarrow> 'a list" where
  "array_sort cmp xs = foldr (insert_sorted cmp) xs []"

text \<open>
  Lines 161 to 166. Each step of \<^verbatim>\<open>reduce\<close> makes a new object from the spread of the
  accumulator and the computed key.
\<close>

definition sortedNetworks :: "(string \<Rightarrow> string \<Rightarrow> int) \<Rightarrow> NetworkInfo \<Rightarrow> NetworkInfo" where
  "sortedNetworks lc m =
     foldl (\<lambda>obj (key, v). create_data_property (object_entries obj) key v) []
       (array_sort (\<lambda>(a, _) (b, _). lc a b) (object_entries m))"

definition get_networks_try :: "world \<Rightarrow> (js_error + NetworkInfo response) \<times> world" where
  "get_networks_try w =
     (case fetchBinanceData w of
        (Inl e, w') \<Rightarrow> (Inl e, w')
      | (Inr binanceResponse, w') \<Rightarrow>
          (let m = networksMap (ApiResponse.data binanceResponse);
               sorted = sortedNetworks (localeCompare w') m
           in (Inr \<lparr>status = 200, success = True, message = None,
                     total = Some (length (object_keys m)), totalCoins = None,
                     data = Some sorted\<rparr>, w')))"

definition get_networks :: "world \<Rightarrow> NetworkInfo response \<times> world" where
  "get_networks w =
     (case get_networks_try w of
        (Inr r, w') \<Rightarrow> (r, w')
      | (Inl e, w') \<Rightarrow>
          (\<lparr>status = 500, success = False, message = Some ''Internal server error'',
            total = None, totalCoins = None, data = None\<rparr>,
           w'\<lparr>console := console w' @ [(''Error processing request:'', e)]\<rparr>))"

section \<open>Fixtures\<close>

definition mkNetwork :: "string \<Rightarrow> string \<Rightarrow> string \<Rightarrow> bool \<Rightarrow> bool \<Rightarrow> Network" where
  "mkNetwork c k n dep wd =
     \<lparr>network = k, Network.coin = c, Network.name = n, depositDust = ''0'',
      Network.depositEnable = dep, Network.withdrawEnable = wd,
      depositHideEnable = False, withdrawHideEnable = False, depositDesc = '''',
      depositMsgCategoryDesc = None, withdrawDesc = '''', withdrawMsgCategoryDesc = None,
      specialTips = '''', specialWithdrawTips = '''', depositFee = ''0'', withdrawFee = ''0'',
      withdrawMin = ''0'', estimatedRecoveryTime = None, estimatedArrivalTime = 0,
      country = '''', label = '''', busy = False, contractAddress = ''''\<rparr>"

definition mkCoin :: "string \<Rightarrow> string \<Rightarrow> Network list \<Rightarrow> Coin" where
  "mkCoin c n ns =
     \<lparr>Coin.coin = c, Coin.name = n, depositAllEnable = True, withdrawAllEnable = True,
      depositHideAll = False, withdrawHideAll = False, logoUrl = '''', totalAmount = None,
      hotFlag = 0, btcValuation = None, networkList = ns\<rparr>"

definition coinBTC :: Coin where
  "coinBTC = mkCoin ''BTC'' ''Bitcoin''
     [mkNetwork ''BTC'' ''BSC'' ''BNB Smart Chain (BEP20)'' True True,
      mkNetwork ''BTC'' ''ETH'' ''Ethereum (ERC20)'' True False]"

definition coinETH :: Coin where
  "coinETH = mkCoin ''ETH'' ''Ethereum'' [mkNetwork ''ETH'' ''ETH'' ''Ethereum (ERC20)'' True True]"

text \<open>A comparator for the examples: the order of the code units.\<close>

definition code_unit_compare :: "string \<Rightarrow> string \<Rightarrow> int" where
  "code_unit_compare a b = (if a < b then - 1 else if a = b then 0 else 1)"

definition world0 :: world where
  "world0 =
     \<lparr>upstream = Inr \<lparr>code = ''000000'', message = None, messageDetail = None,
                       data = [coinBTC, coinETH], success = True\<rparr>,
      localeCompare = code_unit_compare, fetch_calls = 0, console = []\<rparr>"

definition world_down :: world where
  "world_down =
     \<lparr>upstream = Inl (RequestError ''connect ECONNREFUSED''),
      localeCompare = code_unit_compare, fetch_calls = 0, console = []\<rparr>"

definition world_odd :: world where
  "world_odd =
     \<lparr>upstream = Inr \<lparr>code = ''000000'', message = None, messageDetail = None,
        data = [mkCoin ''X'' ''Coin X''
                  [mkNetwork ''X'' ''__proto__'' ''Proto'' True True,
                   mkNetwork ''X'' ''9'' ''Nine'' True True,
                   mkNetwork ''X'' ''10'' ''Ten'' True True,
                   mkNetwork ''X'' ''1INCH'' ''1inch Network'' True True]],
        success = True\<rparr>,
      localeCompare = code_unit_compare, fetch_calls = 0, console = []\<rparr>"

definition world_tie :: world where
  "world_tie =
     \<lparr>upstream = Inr \<lparr>code = ''000000'', message = None, messageDetail = None,
        data = [mkCoin ''A'' ''Coin A'' [mkNetwork ''A'' ''constructor'' ''X'' True True],
                mkCoin ''B'' ''Coin B'' [mkNetwork ''B'' ''constructor'' ''Y'' True True]],
        success = True\<rparr>,
      localeCompare = code_unit_compare, fetch_calls = 0, console = []\<rparr>"

definition world_tie_plain :: world where
  "world_tie_plain =
     \<lparr>upstream = Inr \<lparr>code = ''000000'', message = None, messageDetail = None,
        data = [mkCoin ''A'' ''Coin A'' [mkNetwork ''A'' ''BSC'' ''X'' True True],
                mkCoin ''B'' ''Coin B'' [mkNetwork ''B'' ''BSC'' ''Y'' True True]],
        success = True\<rparr>,
      localeCompare = code_unit_compare, fetch_calls = 0, console = []\<rparr>"

section \<open>Notions used in the statements\<close>

text \<open>
  What the source assumes of \<^verbatim>\<open>localeCompare\<close>: any two strings are comparable, and being
  before or equal is transitive.
\<close>

definition consistent_comparator :: "('a \<Rightarrow> 'a \<Rightarrow> int) \<Rightarrow> bool" where
  "consistent_comparator cmp \<longleftrightarrow>
     (\<forall>a b. cmp a b \<le> 0 \<or> cmp b a \<le> 0) \<and>
     (\<forall>a b c. cmp a b \<le> 0 \<and> cmp b c \<le> 0 \<longrightarrow> cmp a c \<le> 0)"

text \<open>The network codes of a dataset, and the names seen for a code, in upstream order.\<close>

definition network_codes :: "Coin list \<Rightarrow> string set" where
  "network_codes ds = Network.network ` set (concat (map networkList ds))"

definition names_seen :: "Coin list \<Rightarrow> string \<Rightarrow> string list" where
  "names_seen ds k =
     map Network.name (filter (\<lambda>nw. Network.network nw = k) (concat (map networkList ds)))"

text \<open>
  The longest of a sequence of names, the first one among several of that length: the
  running choice keeps what it has unless the next name is strictly longer.
\<close>

definition longer_or_first :: "string \<Rightarrow> string \<Rightarrow> string" where
  "longer_or_first r n = (if length r < length n then n else r)"

fun longest_name :: "string list \<Rightarrow> string option" where
  "longest_name [] = None"
| "longest_name (n # ns) = Some (foldl longer_or_first n ns)"

text \<open>
  A key is plain when \<^verbatim>\<open>Object.prototype\<close> has no property of that name and it is not an
  array index.
\<close>

definition plain_key :: "string \<Rightarrow> bool" where
  "plain_key k \<longleftrightarrow> object_prototype_get k = Undefined \<and> \<not> is_array_index k"

section \<open>Properties of objects and of the sort\<close>

lemma map_of_create_data_property:
  "map_of (create_data_property m k v) = (map_of m)(k \<mapsto> v)"
  by (induction m k v rule: create_data_property.induct) (auto simp: fun_eq_iff)

lemma keys_create_data_property:
  "map fst (create_data_property m k v) =
     (if k \<in> fst ` set m then map fst m else map fst m @ [k])"
  by (induction m k v rule: create_data_property.induct) auto

lemma create_data_property_fresh:
  "k \<notin> fst ` set m \<Longrightarrow> create_data_property m k v = m @ [(k, v)]"
  by (induction m k v rule: create_data_property.induct) auto

lemma create_data_property_same:
  "map_of m k = Some v \<Longrightarrow> create_data_property m k v = m"
  by (induction m k v rule: create_data_property.induct) (auto split: if_splits)

lemma distinct_keys_create_data_property:
  "distinct (map fst m) \<Longrightarrow> distinct (map fst (create_data_property m k v))"
  by (simp add: keys_create_data_property)

lemma map_of_obj_assign:
  "map_of (obj_assign m k v) =
     (if k = ''__proto__'' \<and> map_of m k = None then map_of m else (map_of m)(k \<mapsto> v))"
  by (auto simp: obj_assign_def map_of_create_data_property)

lemma obj_assign_same: "map_of m k = Some v \<Longrightarrow> obj_assign m k v = m"
  by (simp add: obj_assign_def create_data_property_same)

lemma mset_object_entries: "mset (object_entries m) = mset m"
  by (simp add: object_entries_def)

lemma set_object_entries: "set (object_entries m) = set m"
  using mset_object_entries [of m] by (metis set_mset_mset)

lemma distinct_keys_perm:
  assumes "mset xs = mset ys"
  shows "distinct (map fst xs) \<longleftrightarrow> distinct (map fst ys)"
proof -
  have "mset (map fst xs) = mset (map fst ys)"
    using assms by (metis mset_map)
  then show ?thesis
    by (rule mset_eq_imp_distinct_iff)
qed

lemma map_of_perm:
  assumes "mset xs = mset ys" and "distinct (map fst ys)"
  shows "map_of xs = map_of ys"
proof -
  have "distinct (map fst xs)"
    using assms distinct_keys_perm by blast
  moreover have "set xs = set ys"
    using assms(1) by (metis set_mset_mset)
  ultimately show ?thesis
    using assms(2) by (simp add: map_of_inject_set)
qed

lemma object_entries_no_index:
  "\<forall>k \<in> fst ` set m. \<not> is_array_index k \<Longrightarrow> object_entries m = m"
proof -
  assume a: "\<forall>k \<in> fst ` set m. \<not> is_array_index k"
  then have "filter (\<lambda>(k, v). is_array_index k) m = []"
    by (auto simp: filter_empty_conv)
  moreover from a have "filter (\<lambda>(k, v). \<not> is_array_index k) m = m"
    by (auto simp: filter_id_conv)
  ultimately show ?thesis
    by (simp add: object_entries_def)
qed

lemma set_insert_sorted: "set (insert_sorted cmp x ys) = insert x (set ys)"
  by (induction ys) auto

lemma mset_insert_sorted: "mset (insert_sorted cmp x ys) = add_mset x (mset ys)"
  by (induction ys) auto

lemma mset_array_sort: "mset (array_sort cmp xs) = mset xs"
  by (induction xs) (simp_all add: array_sort_def mset_insert_sorted)

lemma set_array_sort: "set (array_sort cmp xs) = set xs"
  using mset_array_sort [of cmp xs] by (metis set_mset_mset)

lemma sorted_insert_sorted:
  assumes "consistent_comparator cmp" and "sorted_wrt (\<lambda>a b. cmp a b \<le> 0) ys"
  shows "sorted_wrt (\<lambda>a b. cmp a b \<le> 0) (insert_sorted cmp x ys)"
  using assms(2)
proof (induction ys)
  case Nil
  then show ?case by simp
next
  case (Cons y ys)
  show ?case
  proof (cases "cmp x y \<le> 0")
    case True
    have "cmp x z \<le> 0" if "z \<in> set ys" for z
      using that True Cons.prems assms(1) unfolding consistent_comparator_def
      by (metis sorted_wrt.simps(2))
    with True Cons.prems show ?thesis by simp
  next
    case False
    then have "cmp y x \<le> 0"
      using assms(1) unfolding consistent_comparator_def by blast
    with False Cons show ?thesis
      by (auto simp: set_insert_sorted)
  qed
qed

lemma sorted_array_sort:
  "consistent_comparator cmp \<Longrightarrow> sorted_wrt (\<lambda>a b. cmp a b \<le> 0) (array_sort cmp xs)"
  by (induction xs) (simp_all add: array_sort_def sorted_insert_sorted)

lemma keys_insert_sorted:
  "map fst (insert_sorted (\<lambda>(a, _) (b, _). lc a b) x ys) = insert_sorted lc (fst x) (map fst ys)"
  by (induction ys) (auto split: prod.splits)

lemma keys_array_sort:
  "map fst (array_sort (\<lambda>(a, _) (b, _). lc a b) xs) = array_sort lc (map fst xs)"
  by (induction xs) (simp_all add: array_sort_def keys_insert_sorted)

lemma consistent_code_unit_compare: "consistent_comparator code_unit_compare"
  by (auto simp: consistent_comparator_def code_unit_compare_def)

section \<open>Properties of the filter\<close>

lemma has_non_whitelisted_iff:
  "has_non_whitelisted wl c \<longleftrightarrow>
     (\<exists>n \<in> set (networkList c). JString (Network.network n) \<notin> set wl)"
  by (simp add: has_non_whitelisted_def set_has_def whitelistedNetworks_def list_ex_iff)

lemma count_list_filter:
  "count_list (filter P xs) x = (if P x then count_list xs x else 0)"
  by (induction xs) auto

text \<open>
  C1. The output is the image, position by position, of the retained coins, so its symbols
  and names are, in order, those of the coins of the dataset that have a network whose code
  is not in the whitelist; the retained coins are a subsequence of the dataset (the relative
  order is kept), and a coin occurs among them as often as in the dataset when one of its
  networks has a code that is not in the whitelist, and not at all otherwise.
\<close>

theorem filter_coins_retains_iff_non_whitelisted:
  "filteredCoins ds wl = map simplifyCoin (retainedCoins ds wl) \<and>
   length (filteredCoins ds wl) = length (retainedCoins ds wl) \<and>
   subseq (retainedCoins ds wl) ds \<and>
   (\<forall>c. count_list (retainedCoins ds wl) c =
      (if \<exists>n \<in> set (networkList c). JString (Network.network n) \<notin> set wl
       then count_list ds c else 0)) \<and>
   map SimplifiedCoin.coin (filteredCoins ds wl) =
     map Coin.coin
       (filter (\<lambda>c. \<exists>n \<in> set (networkList c). JString (Network.network n) \<notin> set wl) ds) \<and>
   map SimplifiedCoin.name (filteredCoins ds wl) =
     map Coin.name
       (filter (\<lambda>c. \<exists>n \<in> set (networkList c). JString (Network.network n) \<notin> set wl) ds)"
proof -
  have "subseq (retainedCoins ds wl) ds"
    by (simp add: retainedCoins_def)
  moreover have "\<forall>c. count_list (retainedCoins ds wl) c =
      (if \<exists>n \<in> set (networkList c). JString (Network.network n) \<notin> set wl
       then count_list ds c else 0)"
    by (simp add: retainedCoins_def count_list_filter has_non_whitelisted_iff)
  moreover have p: "has_non_whitelisted wl =
      (\<lambda>c. \<exists>n \<in> set (networkList c). JString (Network.network n) \<notin> set wl)"
    by (simp add: fun_eq_iff has_non_whitelisted_iff)
  moreover have "SimplifiedCoin.coin (simplifyCoin c) = Coin.coin c" for c
    by (simp add: simplifyCoin_def)
  moreover have "SimplifiedCoin.name (simplifyCoin c) = Coin.name c" for c
    by (simp add: simplifyCoin_def)
  ultimately show ?thesis
    by (simp add: filteredCoins_def retainedCoins_def)
qed

theorem filter_coins_retains_iff_non_whitelisted_witness:
  "subseq (retainedCoins [coinBTC, coinETH] [JString ''ETH'']) [coinBTC, coinETH] \<and>
   length (filteredCoins [coinBTC, coinETH] [JString ''ETH'']) = 1 \<and>
   count_list (retainedCoins [coinBTC, coinETH] [JString ''ETH'']) coinBTC = 1 \<and>
   count_list (retainedCoins [coinBTC, coinETH] [JString ''ETH'']) coinETH = 0"
  using filter_coins_retains_iff_non_whitelisted [of "[coinBTC, coinETH]" "[JString ''ETH'']"]
  by (simp add: coinBTC_def coinETH_def mkCoin_def mkNetwork_def retainedCoins_def
      has_non_whitelisted_iff)

text \<open>
  C8. With the empty whitelist the retained coins are exactly the coins that have at least
  one network, in the order of the dataset; a coin whose network list is empty is dropped.
\<close>

theorem empty_whitelist_retains_coins_with_networks:
  "retainedCoins ds [] = filter (\<lambda>c. networkList c \<noteq> []) ds \<and>
   filteredCoins ds [] = map simplifyCoin (filter (\<lambda>c. networkList c \<noteq> []) ds)"
proof -
  have "has_non_whitelisted [] c \<longleftrightarrow> networkList c \<noteq> []" for c
    by (cases "networkList c") (auto simp: has_non_whitelisted_iff)
  then have "has_non_whitelisted [] = (\<lambda>c. networkList c \<noteq> [])"
    by (simp add: fun_eq_iff)
  then show ?thesis
    by (simp add: filteredCoins_def retainedCoins_def)
qed

lemma networkMap_fold:
  assumes "map_of m ''__proto__'' = None"
  shows "map_of (foldl (\<lambda>m nw. obj_assign m (Network.network nw) (simplifiedNetwork nw)) m nws) =
          (\<lambda>k. if k = ''__proto__'' then None
               else (map_of m ++
                     map_of (rev (map (\<lambda>nw. (Network.network nw, simplifiedNetwork nw)) nws))) k)"
  using assms
proof (induction nws arbitrary: m)
  case Nil
  then show ?case by (auto simp: fun_eq_iff)
next
  case (Cons a nws)
  let ?m' = "obj_assign m (Network.network a) (simplifiedNetwork a)"
  have p: "map_of ?m' ''__proto__'' = None"
    using Cons.prems by (simp add: map_of_obj_assign)
  show ?case
    using Cons.IH [OF p] Cons.prems
    by (auto simp: fun_eq_iff map_of_obj_assign map_add_def split: option.splits)
qed

text \<open>
  The mapping of a simplified coin holds, for every code other than \<^verbatim>\<open>__proto__\<close>, the
  summary of the last network of the coin with that code; its keys are the codes of the
  coin's networks other than \<^verbatim>\<open>__proto__\<close>, whitelisted or not.
\<close>

lemma networkMap_lookup:
  "map_of (networkMap c) k =
     (if k = ''__proto__'' then None
      else map_of (rev (map (\<lambda>nw. (Network.network nw, simplifiedNetwork nw)) (networkList c))) k)"
  by (simp add: networkMap_def networkMap_fold)

lemma networkMap_keys:
  "dom (map_of (networkMap c)) = Network.network ` set (networkList c) - {''__proto__''}"
proof -
  have "dom (map_of (rev (map (\<lambda>nw. (Network.network nw, simplifiedNetwork nw)) (networkList c)))) =
          Network.network ` set (networkList c)"
    by (force simp: dom_map_of_conv_image_fst)
  then show ?thesis
    by (auto simp: networkMap_lookup dom_def split: if_splits)
qed

text \<open>
  C3, at an input where it fails. A coin with the networks \<^verbatim>\<open>__proto__\<close> and \<^verbatim>\<open>ETH\<close> is
  retained under the empty whitelist, and the mapping of its simplified coin has the single
  key \<^verbatim>\<open>ETH\<close>: the assignment to \<^verbatim>\<open>networkMap["__proto__"]\<close> replaced the prototype of the
  object and created no property.
\<close>

theorem proto_network_code_not_in_simplified_coin:
  "map (\<lambda>sc. map fst (networks sc))
     (filteredCoins
        [mkCoin ''X'' ''Coin X''
           [mkNetwork ''X'' ''__proto__'' ''Proto'' True True,
            mkNetwork ''X'' ''ETH'' ''Ethereum (ERC20)'' True True]] []) = [[''ETH'']]"
  by (simp add: filteredCoins_def retainedCoins_def has_non_whitelisted_def set_has_def
      whitelistedNetworks_def simplifyCoin_def networkMap_def obj_assign_def mkCoin_def
      mkNetwork_def)

section \<open>Properties of the handlers\<close>

text \<open>
  The answer to a request whose \<^verbatim>\<open>networks\<close> is an array, when the upstream call succeeds;
  and the scenario of two coins, \<^verbatim>\<open>BTC\<close> on \<^verbatim>\<open>BSC\<close> and \<^verbatim>\<open>ETH\<close>, \<^verbatim>\<open>ETH\<close> on \<^verbatim>\<open>ETH\<close> only, with the
  whitelist \<^verbatim>\<open>["ETH"]\<close>.
\<close>

lemma post_filter_coins_ok:
  assumes "upstream w = Inr up" and "destructure_networks body = Inr (Some (JArray wl))"
  shows "fst (post_filter_coins body w) =
     \<lparr>status = 200, success = True, message = None,
      total = Some (length (filteredCoins (ApiResponse.data up) wl)),
      totalCoins = Some (length (ApiResponse.data up)),
      data = Some (filteredCoins (ApiResponse.data up) wl)\<rparr>"
  using assms
  by (simp add: post_filter_coins_def post_filter_coins_try_def fetchBinanceData_def Let_def)

lemma filter_coins_scenario:
  "fst (post_filter_coins (Some (JObject [(''networks'', JArray [JString ''ETH''])])) world0) =
     \<lparr>status = 200, success = True, message = None, total = Some 1, totalCoins = Some 2,
      data = Some
        [\<lparr>SimplifiedCoin.coin = ''BTC'', name = ''Bitcoin'',
          networks =
            [(''BSC'', \<lparr>SimplifiedNetwork.name = ''BNB Smart Chain (BEP20)'',
                        withdrawEnable = True, depositEnable = True\<rparr>),
             (''ETH'', \<lparr>SimplifiedNetwork.name = ''Ethereum (ERC20)'',
                        withdrawEnable = False, depositEnable = True\<rparr>)]\<rparr>]\<rparr>"
  by (simp add: post_filter_coins_def post_filter_coins_try_def fetchBinanceData_def Let_def
      world0_def filteredCoins_def retainedCoins_def has_non_whitelisted_def set_has_def
      whitelistedNetworks_def simplifyCoin_def networkMap_def simplifiedNetwork_def
      obj_assign_def coinBTC_def coinETH_def mkCoin_def mkNetwork_def)

lemma fetch_counts_one_call: "fetch_calls (snd (fetchBinanceData w)) = Suc (fetch_calls w)"
  by (simp add: fetchBinanceData_def Let_def split: sum.splits)





text \<open>With an array the handler calls the upstream once.\<close>

lemma array_networks_fetch_once:
  assumes "destructure_networks body = Inr nws" and "isArray nws"
  shows "fetch_calls (snd (post_filter_coins body w)) = Suc (fetch_calls w)"
  using assms
  by (simp add: post_filter_coins_def post_filter_coins_try_def fetchBinanceData_def Let_def
      split: sum.splits prod.splits)

text \<open>
  C6. Whatever is thrown inside the \<^verbatim>\<open>try\<close> block of a handler (the two of src/index.ts
  and the one of the second source file), the answer is 500 with
  the body \<^verbatim>\<open>{ success: false, message: "Internal server error" }\<close>, which has no \<^verbatim>\<open>data\<close> field
  and does not depend on the error; the error goes to the console. A failing upstream call
  is such a throw in the networks handler, and in the filter-coins handler once the
  \<^verbatim>\<open>networks\<close> value has passed the array check; so is a request body that cannot be
  destructured.
\<close>

theorem errors_answered_with_generic_500:
  "(fst (post_filter_coins_try body w) = Inl e \<longrightarrow>
      fst (post_filter_coins body w) =
        \<lparr>status = 500, success = False, message = Some ''Internal server error'',
         total = None, totalCoins = None, data = None\<rparr> \<and>
      (''Error processing request:'', e) \<in> set (console (snd (post_filter_coins body w)))) \<and>
   (fst (get_networks_try w) = Inl e \<longrightarrow>
      fst (get_networks w) =
        \<lparr>status = 500, success = False, message = Some ''Internal server error'',
         total = None, totalCoins = None, data = None\<rparr> \<and>
      (''Error processing request:'', e) \<in> set (console (snd (get_networks w)))) \<and>
   (fst (post_filter_coins_try_part000 body w) = Inl e \<longrightarrow>
      fst (post_filter_coins_part000 body w) =
        \<lparr>status = 500, success = False, message = Some ''Internal server error'',
         total = None, totalCoins = None, data = None\<rparr> \<and>
      (''Error processing request:'', e) \<in> set (console (snd (post_filter_coins_part000 body w)))) \<and>
   (upstream w = Inl e \<longrightarrow> fst (get_networks_try w) = Inl e) \<and>
   (upstream w = Inl e \<and> destructure_networks body = Inr nws \<and> isArray nws \<longrightarrow>
      fst (post_filter_coins_try body w) = Inl e) \<and>
   (destructure_networks body = Inl e \<longrightarrow> fst (post_filter_coins_try body w) = Inl e)"
  by (auto simp: post_filter_coins_def post_filter_coins_try_def get_networks_def
      get_networks_try_def post_filter_coins_part000_def post_filter_coins_try_part000_def
      fetchBinanceData_def Let_def split: sum.splits prod.splits)

theorem errors_answered_with_generic_500_witness:
  "fst (get_networks world_down) =
     \<lparr>status = 500, success = False, message = Some ''Internal server error'',
      total = None, totalCoins = None, data = None\<rparr> \<and>
   fst (post_filter_coins (Some (JObject [(''networks'', JArray [])])) world_down) =
     \<lparr>status = 500, success = False, message = Some ''Internal server error'',
      total = None, totalCoins = None, data = None\<rparr>"
proof -
  have u: "upstream world_down = Inl (RequestError ''connect ECONNREFUSED'')"
    by (simp add: world_down_def)
  have d: "destructure_networks (Some (JObject [(''networks'', JArray [])])) = Inr (Some (JArray []))"
    by simp
  from errors_answered_with_generic_500
    [of "Some (JObject [(''networks'', JArray [])])" world_down
        "RequestError ''connect ECONNREFUSED''" "Some (JArray [])"] u d
  show ?thesis by simp
qed

text \<open>
  C7, as amended. A filter-coins answer with status 200 carries the filtered coins in
  \<^verbatim>\<open>data\<close> and their number in \<^verbatim>\<open>total\<close>. The handler of src/index.ts also carries, in
  \<^verbatim>\<open>totalCoins\<close>, the size of the upstream dataset; the handler of the second source file
  has no \<^verbatim>\<open>totalCoins\<close> field.
\<close>

theorem success_totals:
  "(status (fst (post_filter_coins body w)) = 200 \<longrightarrow>
      (\<exists>up fc. upstream w = Inr up \<and>
         data (fst (post_filter_coins body w)) = Some fc \<and>
         total (fst (post_filter_coins body w)) = Some (length fc) \<and>
         totalCoins (fst (post_filter_coins body w)) = Some (length (ApiResponse.data up)))) \<and>
   (status (fst (post_filter_coins_part000 body w)) = 200 \<longrightarrow>
      (\<exists>fc. data (fst (post_filter_coins_part000 body w)) = Some fc \<and>
         total (fst (post_filter_coins_part000 body w)) = Some (length fc) \<and>
         totalCoins (fst (post_filter_coins_part000 body w)) = None))"
  by (auto simp: post_filter_coins_def post_filter_coins_try_def post_filter_coins_part000_def
      post_filter_coins_try_part000_def fetchBinanceData_def Let_def
      split: sum.splits prod.splits)

theorem success_totals_witness:
  "total (fst (post_filter_coins (Some (JObject [(''networks'', JArray [JString ''ETH''])])) world0)) = Some 1 \<and>
   totalCoins (fst (post_filter_coins (Some (JObject [(''networks'', JArray [JString ''ETH''])])) world0)) = Some 2"
proof -
  let ?b = "Some (JObject [(''networks'', JArray [JString ''ETH''])])"
  have s: "status (fst (post_filter_coins ?b world0)) = 200"
    by (simp add: post_filter_coins_def post_filter_coins_try_def fetchBinanceData_def
        world0_def Let_def)
  have f: "data (fst (post_filter_coins ?b world0)) = Some [simplifyCoin coinBTC]"
    by (simp add: post_filter_coins_def post_filter_coins_try_def fetchBinanceData_def
        world0_def Let_def filteredCoins_def retainedCoins_def has_non_whitelisted_iff
        coinBTC_def coinETH_def mkCoin_def mkNetwork_def)
  have u: "upstream world0 = Inr \<lparr>code = ''000000'', message = None, messageDetail = None,
                       data = [coinBTC, coinETH], success = True\<rparr>"
    by (simp add: world0_def)
  from success_totals [of ?b world0] s f u show ?thesis
    by auto
qed

text \<open>
  The claim as stated fails on the second source file: a successful answer without
  \<^verbatim>\<open>totalCoins\<close>.
\<close>

theorem part000_success_has_no_totalCoins:
  "status (fst (post_filter_coins_part000 (Some (JObject [(''networks'', JArray [JString ''ETH''])])) world0)) = 200 \<and>
   totalCoins (fst (post_filter_coins_part000 (Some (JObject [(''networks'', JArray [JString ''ETH''])])) world0)) = None"
  by (simp add: post_filter_coins_part000_def post_filter_coins_try_part000_def
      fetchBinanceData_def world0_def Let_def)

text \<open>
  C10. The two source files compute the same filtered sequence, and the answers of their
  filter-coins handlers (and what they do to the environment) are equal except that the
  second file's answer never has \<^verbatim>\<open>totalCoins\<close>; in particular \<^verbatim>\<open>total\<close> and \<^verbatim>\<open>data\<close> agree.
\<close>

theorem variants_agree:
  "filteredCoins_part000 ds wl = filteredCoins ds wl \<and>
   post_filter_coins_part000 body w =
     (case post_filter_coins body w of (r, w') \<Rightarrow> (r\<lparr>totalCoins := None\<rparr>, w')) \<and>
   total (fst (post_filter_coins_part000 body w)) = total (fst (post_filter_coins body w)) \<and>
   data (fst (post_filter_coins_part000 body w)) = data (fst (post_filter_coins body w))"
proof -
  have p: "has_non_whitelisted wl =
      (\<lambda>c. list_ex (\<lambda>nw. \<not> set_has (set wl) (Network.network nw)) (networkList c))" for wl
    by (simp add: fun_eq_iff has_non_whitelisted_def whitelistedNetworks_def)
  have m: "simplifyCoin =
      (\<lambda>c. \<lparr>SimplifiedCoin.coin = Coin.coin c, name = Coin.name c,
         networks =
           foldl (\<lambda>m nw.
              obj_assign m (Network.network nw)
                \<lparr>SimplifiedNetwork.name = Network.name nw,
                 withdrawEnable = Network.withdrawEnable nw,
                 depositEnable = Network.depositEnable nw\<rparr>)
             [] (networkList c)\<rparr>)"
    by (simp add: fun_eq_iff simplifyCoin_def networkMap_def simplifiedNetwork_def)
  have f: "filteredCoins_part000 ds wl = filteredCoins ds wl" for ds wl
    by (simp add: filteredCoins_part000_def filteredCoins_def retainedCoins_def p m)
  have h: "post_filter_coins_part000 body w =
     (case post_filter_coins body w of (r, w') \<Rightarrow> (r\<lparr>totalCoins := None\<rparr>, w'))"
    by (simp add: post_filter_coins_part000_def post_filter_coins_try_part000_def
        post_filter_coins_def post_filter_coins_try_def f Let_def
        split: sum.splits prod.splits)
  show ?thesis
    by (simp add: f h split: prod.splits)
qed

section \<open>Properties of the network index\<close>

text \<open>
  One step on a code that has a recorded name: the recorded name after the step is the new
  name if that is strictly longer and the recorded one otherwise; when the new name is not
  longer (so also when the lengths are equal) the whole object is unchanged; and the names
  recorded for other codes are never touched.
\<close>

lemma recorded_name_kept_unless_strictly_longer:
  assumes "map_of m (Network.network nw) = Some r"
  shows "map_of (recordNetwork m nw) (Network.network nw) =
           Some (if length r < length (Network.name nw) then Network.name nw else r) \<and>
         (length (Network.name nw) \<le> length r \<longrightarrow> recordNetwork m nw = m) \<and>
         (\<forall>k. k \<noteq> Network.network nw \<longrightarrow> map_of (recordNetwork m nw) k = map_of m k)"
proof -
  have g: "obj_get m (Network.network nw) = StringValue r"
    using assms by (simp add: obj_get_def)
  have 1: "map_of (recordNetwork m nw) (Network.network nw) =
           Some (if length r < length (Network.name nw) then Network.name nw else r)"
    using assms by (auto simp: recordNetwork_def g map_of_obj_assign)
  have 2: "recordNetwork m nw = m" if "length (Network.name nw) \<le> length r"
    using that assms by (auto simp: recordNetwork_def g obj_assign_same)
  have 3: "map_of (recordNetwork m nw) k = map_of m k" if "k \<noteq> Network.network nw" for k
    using that by (simp add: recordNetwork_def map_of_obj_assign)
  from 1 2 3 show ?thesis by blast
qed

lemma recorded_name_kept_unless_strictly_longer_example:
  "map_of (recordNetwork [(''BSC'', ''BSC'')] (mkNetwork ''A'' ''BSC'' ''BNB Smart Chain (BEP20)'' True True)) ''BSC'' =
     Some ''BNB Smart Chain (BEP20)'' \<and>
   recordNetwork [(''BSC'', ''BSC'')] (mkNetwork ''B'' ''BSC'' ''BEP'' True True) = [(''BSC'', ''BSC'')]"
proof -
  have a: "map_of [(''BSC'', ''BSC'')] (Network.network (mkNetwork ''A'' ''BSC'' ''BNB Smart Chain (BEP20)'' True True)) = Some ''BSC''"
    by (simp add: mkNetwork_def)
  have b: "map_of [(''BSC'', ''BSC'')] (Network.network (mkNetwork ''B'' ''BSC'' ''BEP'' True True)) = Some ''BSC''"
    by (simp add: mkNetwork_def)
  from recorded_name_kept_unless_strictly_longer [OF a] recorded_name_kept_unless_strictly_longer [OF b]
  show ?thesis by (simp add: mkNetwork_def)
qed

lemma spread_fold_mset:
  assumes "distinct (map fst (acc @ xs))"
  shows "mset (foldl (\<lambda>obj (key, v). create_data_property (object_entries obj) key v) acc xs) =
         mset (acc @ xs)"
  using assms
proof (induction xs arbitrary: acc)
  case Nil
  then show ?case by simp
next
  case (Cons x xs)
  obtain k v where x: "x = (k, v)" by (cases x)
  let ?acc' = "create_data_property (object_entries acc) k v"
  have fresh: "k \<notin> fst ` set (object_entries acc)"
    using Cons.prems x by (auto simp: set_object_entries)
  then have acc': "?acc' = object_entries acc @ [(k, v)]"
    by (rule create_data_property_fresh)
  then have m: "mset ?acc' = mset (acc @ [(k, v)])"
    by (simp add: mset_object_entries)
  have "mset (?acc' @ xs) = mset ((acc @ [(k, v)]) @ xs)"
    using m by simp
  moreover have "distinct (map fst ((acc @ [(k, v)]) @ xs))"
    using Cons.prems x by simp
  ultimately have d: "distinct (map fst (?acc' @ xs))"
    using distinct_keys_perm by blast
  show ?case
    using Cons.IH [OF d] m x by simp
qed

lemma spread_fold_no_index:
  assumes "distinct (map fst (acc @ xs))" and "\<forall>k \<in> fst ` set (acc @ xs). \<not> is_array_index k"
  shows "foldl (\<lambda>obj (key, v). create_data_property (object_entries obj) key v) acc xs = acc @ xs"
  using assms
proof (induction xs arbitrary: acc)
  case Nil
  then show ?case by simp
next
  case (Cons x xs)
  obtain k v where x: "x = (k, v)" by (cases x)
  have e: "object_entries acc = acc"
    using Cons.prems(2) by (intro object_entries_no_index) auto
  have "k \<notin> fst ` set acc"
    using Cons.prems(1) x by auto
  then have acc': "create_data_property (object_entries acc) k v = acc @ [(k, v)]"
    by (simp add: e create_data_property_fresh)
  have "foldl (\<lambda>obj (key, v). create_data_property (object_entries obj) key v) (acc @ [(k, v)]) xs =
        (acc @ [(k, v)]) @ xs"
    using Cons.prems x by (intro Cons.IH) auto
  then show ?case
    by (simp add: x acc')
qed

lemma sortedNetworks_map_of:
  assumes "distinct (map fst m)"
  shows "map_of (sortedNetworks lc m) = map_of m" and "distinct (map fst (sortedNetworks lc m))"
proof -
  let ?xs = "array_sort (\<lambda>(a, _) (b, _). lc a b) (object_entries m)"
  have p: "mset ?xs = mset m"
    by (simp add: mset_array_sort mset_object_entries)
  then have d: "distinct (map fst ([] @ ?xs))"
    using assms distinct_keys_perm by auto
  have "mset (sortedNetworks lc m) = mset m"
    using spread_fold_mset [OF d] p by (simp add: sortedNetworks_def)
  then show "map_of (sortedNetworks lc m) = map_of m" and "distinct (map fst (sortedNetworks lc m))"
    using assms map_of_perm distinct_keys_perm by blast+
qed

lemma sortedNetworks_no_index:
  assumes "distinct (map fst m)" and "\<forall>k \<in> fst ` set m. \<not> is_array_index k"
  shows "object_entries (sortedNetworks lc m) = array_sort (\<lambda>(a, _) (b, _). lc a b) m"
proof -
  let ?xs = "array_sort (\<lambda>(a, _) (b, _). lc a b) m"
  have e: "object_entries m = m"
    using assms(2) by (rule object_entries_no_index)
  have p: "mset ?xs = mset m"
    by (simp add: mset_array_sort)
  then have d: "distinct (map fst ([] @ ?xs))"
    using assms(1) distinct_keys_perm by auto
  have s: "set ?xs = set m"
    by (simp add: set_array_sort)
  then have n: "\<forall>k \<in> fst ` set ([] @ ?xs). \<not> is_array_index k"
    using assms(2) by simp
  have "sortedNetworks lc m = ?xs"
    using spread_fold_no_index [OF d n] by (simp add: sortedNetworks_def e)
  moreover have "object_entries ?xs = ?xs"
    using n by (intro object_entries_no_index) simp
  ultimately show ?thesis by simp
qed

lemma foldl_concat_map: "foldl (\<lambda>a x. foldl f a (g x)) a xs = foldl f a (concat (map g xs))"
  by (induction xs arbitrary: a) simp_all

lemma networksMap_flat: "networksMap ds = foldl recordNetwork [] (concat (map networkList ds))"
  by (simp add: networksMap_def foldl_concat_map)

lemma distinct_keys_recordNetwork:
  "distinct (map fst m) \<Longrightarrow> distinct (map fst (recordNetwork m nw))"
  by (simp add: recordNetwork_def obj_assign_def distinct_keys_create_data_property)

lemma distinct_keys_fold_recordNetwork:
  "distinct (map fst m) \<Longrightarrow> distinct (map fst (foldl recordNetwork m nws))"
  by (induction nws arbitrary: m) (simp_all add: distinct_keys_recordNetwork)

lemma distinct_keys_networksMap: "distinct (map fst (networksMap ds))"
  by (simp add: networksMap_flat distinct_keys_fold_recordNetwork)

lemma keys_recordNetwork:
  "fst ` set (recordNetwork m nw) \<subseteq> insert (Network.network nw) (fst ` set m)"
proof -
  have "set (map fst (recordNetwork m nw)) \<subseteq> insert (Network.network nw) (set (map fst m))"
    by (auto simp: recordNetwork_def obj_assign_def keys_create_data_property
        simp del: set_map split: if_splits)
  then show ?thesis by simp
qed

lemma keys_fold_recordNetwork:
  "fst ` set (foldl recordNetwork m nws) \<subseteq> fst ` set m \<union> Network.network ` set nws"
proof (induction nws arbitrary: m)
  case Nil
  then show ?case by simp
next
  case (Cons a nws)
  from Cons.IH [of "recordNetwork m a"] keys_recordNetwork [of m a]
  show ?case by auto
qed

lemma keys_networksMap_subset: "fst ` set (networksMap ds) \<subseteq> network_codes ds"
  using keys_fold_recordNetwork [of "[]" "concat (map networkList ds)"]
  by (simp add: networksMap_flat network_codes_def)

lemma recordNetwork_lookup:
  assumes "object_prototype_get k = Undefined"
  shows "map_of (recordNetwork m nw) k =
     (if Network.network nw = k
      then Some (case map_of m k of None \<Rightarrow> Network.name nw
                 | Some r \<Rightarrow> longer_or_first r (Network.name nw))
      else map_of m k)"
proof -
  have k: "k \<noteq> ''__proto__''"
    using assms by (auto simp: object_prototype_get_def)
  show ?thesis
    using assms k
    by (auto simp: recordNetwork_def obj_get_def map_of_obj_assign longer_or_first_def
        split: option.splits)
qed

lemma fold_recordNetwork_lookup:
  assumes "object_prototype_get k = Undefined"
  shows "map_of (foldl recordNetwork m nws) k =
     (case map_of m k of
        None \<Rightarrow> longest_name (map Network.name (filter (\<lambda>nw. Network.network nw = k) nws))
      | Some r \<Rightarrow>
          Some (foldl longer_or_first r
                  (map Network.name (filter (\<lambda>nw. Network.network nw = k) nws))))"
proof (induction nws arbitrary: m)
  case Nil
  then show ?case by (simp split: option.splits)
next
  case (Cons a nws)
  show ?case
    by (simp add: Cons.IH recordNetwork_lookup [OF assms] split: option.splits)
qed

lemma networksMap_lookup:
  "object_prototype_get k = Undefined \<Longrightarrow>
     map_of (networksMap ds) k = longest_name (names_seen ds k)"
  by (simp add: networksMap_flat fold_recordNetwork_lookup names_seen_def)

lemma foldl_longer_or_first:
  "\<exists>pre post. r # ns = pre @ foldl longer_or_first r ns # post \<and>
     (\<forall>n \<in> set pre. length n < length (foldl longer_or_first r ns)) \<and>
     (\<forall>n \<in> set post. length n \<le> length (foldl longer_or_first r ns))"
proof (induction ns rule: rev_induct)
  case Nil
  have "[r] = [] @ r # []" by simp
  then show ?case by fastforce
next
  case (snoc n ns)
  let ?v = "foldl longer_or_first r ns"
  from snoc obtain pre post where
    s: "r # ns = pre @ ?v # post" and
    a: "\<forall>x \<in> set pre. length x < length ?v" and
    b: "\<forall>x \<in> set post. length x \<le> length ?v"
    by blast
  show ?case
  proof (cases "length ?v < length n")
    case True
    then have f: "foldl longer_or_first r (ns @ [n]) = n"
      by (simp add: longer_or_first_def)
    have "r # ns @ [n] = (pre @ ?v # post) @ n # []"
      using s by simp
    moreover have "\<forall>x \<in> set (pre @ ?v # post). length x < length n"
      using a b True by auto
    ultimately show ?thesis
      unfolding f by (metis empty_iff empty_set)
  next
    case False
    then have f: "foldl longer_or_first r (ns @ [n]) = ?v"
      by (simp add: longer_or_first_def)
    have "r # ns @ [n] = pre @ ?v # (post @ [n])"
      using s by simp
    moreover have "\<forall>x \<in> set (post @ [n]). length x \<le> length ?v"
      using b False by auto
    ultimately show ?thesis
      unfolding f using a by blast
  qed
qed

text \<open>What \<^const>\<open>longest_name\<close> chooses: no earlier name is as long, no later name is longer.\<close>

lemma longest_name_first_longest:
  assumes "longest_name ns = Some v"
  shows "\<exists>pre post. ns = pre @ v # post \<and> (\<forall>n \<in> set pre. length n < length v) \<and>
           (\<forall>n \<in> set post. length n \<le> length v)"
proof (cases ns)
  case Nil
  with assms show ?thesis by simp
next
  case (Cons r rest)
  with assms have "v = foldl longer_or_first r rest" by simp
  with foldl_longer_or_first [of r rest] Cons show ?thesis by simp
qed

lemma longest_name_None: "longest_name ns = None \<longleftrightarrow> ns = []"
  by (cases ns) simp_all

lemma names_seen_empty: "names_seen ds k = [] \<longleftrightarrow> k \<notin> network_codes ds"
  by (auto simp: names_seen_def network_codes_def filter_empty_conv)

lemma keys_networksMap_plain:
  assumes "\<forall>k \<in> network_codes ds. object_prototype_get k = Undefined"
  shows "fst ` set (networksMap ds) = network_codes ds"
proof
  show "fst ` set (networksMap ds) \<subseteq> network_codes ds"
    by (rule keys_networksMap_subset)
next
  show "network_codes ds \<subseteq> fst ` set (networksMap ds)"
  proof
    fix k assume k: "k \<in> network_codes ds"
    then have "map_of (networksMap ds) k = longest_name (names_seen ds k)"
      using assms by (simp add: networksMap_lookup)
    moreover have "longest_name (names_seen ds k) \<noteq> None"
      using k by (simp add: longest_name_None names_seen_empty)
    ultimately have "k \<in> dom (map_of (networksMap ds))"
      by auto
    then show "k \<in> fst ` set (networksMap ds)"
      by (simp add: dom_map_of_conv_image_fst)
  qed
qed

lemma get_networks_ok:
  assumes "upstream w = Inr up"
  shows "fst (get_networks w) =
     \<lparr>status = 200, success = True, message = None,
      total = Some (length (object_keys (networksMap (ApiResponse.data up)))), totalCoins = None,
      data = Some (sortedNetworks (localeCompare w) (networksMap (ApiResponse.data up)))\<rparr>"
  using assms
  by (simp add: get_networks_def get_networks_try_def fetchBinanceData_def Let_def)

text \<open>
  The network index of a dataset whose network codes are all plain, under a consistent
  comparator: the keys of the answer are exactly the distinct codes of the dataset, in
  ascending order of the comparator, \<^verbatim>\<open>total\<close> is their number, and each code has the longest
  name seen for it, the first among the longest.
\<close>

lemma network_index_of_plain_codes:
  assumes up: "upstream w = Inr up"
    and plain: "\<forall>k \<in> network_codes (ApiResponse.data up). plain_key k"
    and cmp: "consistent_comparator (localeCompare w)"
  shows "\<exists>idx. data (fst (get_networks w)) = Some idx \<and>
           status (fst (get_networks w)) = 200 \<and>
           total (fst (get_networks w)) = Some (card (network_codes (ApiResponse.data up))) \<and>
           set (object_keys idx) = network_codes (ApiResponse.data up) \<and>
           distinct (object_keys idx) \<and>
           sorted_wrt (\<lambda>a b. localeCompare w a b \<le> 0) (object_keys idx) \<and>
           (\<forall>k \<in> network_codes (ApiResponse.data up).
              map_of (object_entries idx) k = longest_name (names_seen (ApiResponse.data up) k))"
proof -
  let ?ds = "ApiResponse.data up"
  let ?m = "networksMap ?ds"
  let ?lc = "localeCompare w"
  let ?idx = "sortedNetworks ?lc ?m"
  have proto: "\<forall>k \<in> network_codes ?ds. object_prototype_get k = Undefined"
    using plain by (simp add: plain_key_def)
  have keys: "fst ` set ?m = network_codes ?ds"
    using proto by (rule keys_networksMap_plain)
  have dist: "distinct (map fst ?m)"
    by (rule distinct_keys_networksMap)
  have noidx: "\<forall>k \<in> fst ` set ?m. \<not> is_array_index k"
    using plain keys by (simp add: plain_key_def)
  have ent: "object_entries ?idx = array_sort (\<lambda>(a, _) (b, _). ?lc a b) ?m"
    using dist noidx by (rule sortedNetworks_no_index)
  have ok: "object_keys ?idx = array_sort ?lc (map fst ?m)"
    by (simp add: object_keys_def ent keys_array_sort)
  have 1: "set (object_keys ?idx) = network_codes ?ds"
    using keys by (simp add: ok set_array_sort)
  have "mset (object_keys ?idx) = mset (map fst ?m)"
    by (simp add: ok mset_array_sort)
  then have 2: "distinct (object_keys ?idx)"
    using dist mset_eq_imp_distinct_iff by blast
  have 3: "sorted_wrt (\<lambda>a b. ?lc a b \<le> 0) (object_keys ?idx)"
    using cmp by (simp add: ok sorted_array_sort)
  have "mset (object_entries ?idx) = mset ?m"
    by (simp add: ent mset_array_sort)
  then have "map_of (object_entries ?idx) = map_of ?m"
    using dist by (rule map_of_perm)
  then have 4: "\<forall>k \<in> network_codes ?ds.
      map_of (object_entries ?idx) k = longest_name (names_seen ?ds k)"
    using proto by (simp add: networksMap_lookup)
  have "object_entries ?m = ?m"
    using noidx by (rule object_entries_no_index)
  then have "length (object_keys ?m) = length (map fst ?m)"
    by (simp add: object_keys_def)
  also have "\<dots> = card (set (map fst ?m))"
    using distinct_card [OF dist] by simp
  also have "\<dots> = card (network_codes ?ds)"
    using keys by simp
  finally have 5: "length (object_keys ?m) = card (network_codes ?ds)" .
  show ?thesis
    using 1 2 3 4 5 by (simp add: get_networks_ok [OF up])
qed

text \<open>
  An instance on the two coins of the scenario, and the scenario of one code with a long
  and a short name: the long name is recorded whichever coin comes first.
\<close>

lemma network_codes_world0:
  "network_codes [coinBTC, coinETH] = {''BSC'', ''ETH''}"
  by (simp add: network_codes_def coinBTC_def coinETH_def mkCoin_def mkNetwork_def insert_commute)

lemma network_index_of_plain_codes_example:
  "\<exists>idx. data (fst (get_networks world0)) = Some idx \<and>
     total (fst (get_networks world0)) = Some 2 \<and>
     set (object_keys idx) = {''BSC'', ''ETH''} \<and>
     sorted_wrt (\<lambda>a b. code_unit_compare a b \<le> 0) (object_keys idx)"
proof -
  let ?up = "\<lparr>code = ''000000'', message = None, messageDetail = None,
              data = [coinBTC, coinETH], success = True\<rparr>"
  have u: "upstream world0 = Inr ?up"
    by (simp add: world0_def)
  have d: "network_codes (ApiResponse.data ?up) = {''BSC'', ''ETH''}"
    by (simp add: network_codes_world0)
  have "plain_key ''BSC''" and "plain_key ''ETH''"
    by (simp_all add: plain_key_def object_prototype_get_def is_array_index_def)
  then have p: "\<forall>k \<in> network_codes (ApiResponse.data ?up). plain_key k"
    unfolding d by blast
  have l: "localeCompare world0 = code_unit_compare"
    by (simp add: world0_def)
  have c: "consistent_comparator (localeCompare world0)"
    unfolding l by (rule consistent_code_unit_compare)
  have k: "card {''BSC'', ''ETH''} = 2"
    by simp
  from network_index_of_plain_codes [OF u p c] show ?thesis
    unfolding d l k by blast
qed

lemma network_index_scenario:
  "networksMap
     [mkCoin ''A'' ''Coin A'' [mkNetwork ''A'' ''BSC'' ''BNB Smart Chain (BEP20)'' True True],
      mkCoin ''B'' ''Coin B'' [mkNetwork ''B'' ''BSC'' ''BSC'' True True]] =
     [(''BSC'', ''BNB Smart Chain (BEP20)'')] \<and>
   networksMap
     [mkCoin ''B'' ''Coin B'' [mkNetwork ''B'' ''BSC'' ''BSC'' True True],
      mkCoin ''A'' ''Coin A'' [mkNetwork ''A'' ''BSC'' ''BNB Smart Chain (BEP20)'' True True]] =
     [(''BSC'', ''BNB Smart Chain (BEP20)'')]"
  by (simp add: networksMap_def recordNetwork_def obj_get_def obj_assign_def
      object_prototype_get_def mkCoin_def mkNetwork_def)

text \<open>
  For a code of which \<^verbatim>\<open>Object.prototype\<close> has no property, the index records, among
  all the names seen for the code, the first of the longest: the first name is recorded, and
  a later one replaces the recorded one only when it is strictly longer.
\<close>

lemma networksMap_records_longest_first:
  assumes "object_prototype_get k = Undefined" and "k \<in> network_codes ds"
  shows "\<exists>pre v post. map_of (networksMap ds) k = Some v \<and> names_seen ds k = pre @ v # post \<and>
           (\<forall>n \<in> set pre. length n < length v) \<and> (\<forall>n \<in> set post. length n \<le> length v)"
proof -
  have "names_seen ds k \<noteq> []"
    using assms(2) by (simp add: names_seen_empty)
  then obtain v where v: "longest_name (names_seen ds k) = Some v"
    by (cases "names_seen ds k") simp_all
  from longest_name_first_longest [OF v] networksMap_lookup [OF assms(1), of ds] v
  show ?thesis by auto
qed

text \<open>
  C4, at an input where it fails. Two coins have the network \<^verbatim>\<open>constructor\<close>, named \<^verbatim>\<open>X\<close> on
  the first and \<^verbatim>\<open>Y\<close> on the second. Reading \<^verbatim>\<open>networksMap["constructor"]\<close> finds the function
  \<^verbatim>\<open>Object\<close>, which is truthy and has length 1, so neither name is longer and neither is
  assigned: no name is recorded for the code, the index is empty and \<^verbatim>\<open>total\<close> is 0, where
  the first-seen name \<^verbatim>\<open>X\<close> should have been kept. With the code \<^verbatim>\<open>BSC\<close> in place of
  \<^verbatim>\<open>constructor\<close> the same two names leave \<^verbatim>\<open>X\<close> recorded.
\<close>

theorem network_index_tie_on_constructor_keeps_neither:
  "map_option object_entries (data (fst (get_networks world_tie))) = Some [] \<and>
   total (fst (get_networks world_tie)) = Some 0 \<and>
   map_option object_entries (data (fst (get_networks world_tie_plain))) =
     Some [(''BSC'', ''X'')] \<and>
   total (fst (get_networks world_tie_plain)) = Some 1"
  by (simp add: get_networks_def get_networks_try_def fetchBinanceData_def world_tie_def
      world_tie_plain_def networksMap_def recordNetwork_def obj_get_def obj_assign_def
      object_prototype_get_def mkCoin_def mkNetwork_def sortedNetworks_def object_entries_def
      object_keys_def is_array_index_def decimal_value_def array_sort_def Let_def)

text \<open>
  C2, at an input where it fails. A dataset of one coin with the networks \<^verbatim>\<open>__proto__\<close>,
  \<^verbatim>\<open>9\<close>, \<^verbatim>\<open>10\<close> and \<^verbatim>\<open>1INCH\<close>. The code \<^verbatim>\<open>__proto__\<close> is not a key of the index: reading it
  finds \<^verbatim>\<open>Object.prototype\<close>, which is truthy and has no length, so nothing is assigned. The
  answer lists \<^verbatim>\<open>9\<close>, \<^verbatim>\<open>10\<close>, \<^verbatim>\<open>1INCH\<close>, although the comparator the handler sorted with puts
  both \<^verbatim>\<open>10\<close> and \<^verbatim>\<open>1INCH\<close> strictly before \<^verbatim>\<open>9\<close>: an object enumerates its array indices
  first, in numeric order.
\<close>

theorem network_index_drops_proto_and_misorders_indices:
  "map_option object_entries (data (fst (get_networks world_odd))) =
     Some [(''9'', ''Nine''), (''10'', ''Ten''), (''1INCH'', ''1inch Network'')] \<and>
   total (fst (get_networks world_odd)) = Some 3 \<and>
   localeCompare world_odd ''10'' ''9'' < 0 \<and>
   localeCompare world_odd ''1INCH'' ''9'' < 0 \<and>
   \<not> sorted_wrt (\<lambda>a b. localeCompare world_odd a b \<le> 0) [''9'', ''10'', ''1INCH'']"
  by (simp add: get_networks_def get_networks_try_def fetchBinanceData_def world_odd_def
      networksMap_def recordNetwork_def obj_get_def obj_assign_def object_prototype_get_def
      mkCoin_def mkNetwork_def sortedNetworks_def object_entries_def object_keys_def
      is_array_index_def decimal_value_def array_sort_def code_unit_compare_def Let_def)

text \<open>Whatever the comparator, two array indices are enumerated numerically.\<close>

lemma index_keys_enumerate_numerically:
  "object_keys (sortedNetworks lc [(''9'', x), (''10'', y)]) = [''9'', ''10'']"
  by (simp add: sortedNetworks_def object_entries_def object_keys_def is_array_index_def
      decimal_value_def array_sort_def)

end
